theory Spec2Isabelle
  imports Complex_Main
begin

section \<open>JavaScript numbers\<close>

text \<open>
  The client computes with JavaScript \<^verbatim>\<open>number\<close> values. A finite number is
  modelled by the real it denotes; the three non-finite values are kept apart, since
  the unguarded division in the food-entry scaling can produce them. Two things of
  IEEE-754 are left out: the binary rounding error of an operation on finite values
  (every operation is exact), and the sign of zero (\<open>Fin 0\<close> stands for both zeros, and
  a division of a non-zero finite value by zero takes the sign of the dividend, as it
  does for \<^verbatim>\<open>+0\<close>).
\<close>

datatype jsnum = Fin real | PInf | NInf | NaN

fun inf_of_sign :: "real \<Rightarrow> jsnum" where
  "inf_of_sign s = (if s = 0 then NaN else if 0 < s then PInf else NInf)"

fun isFinite :: "jsnum \<Rightarrow> bool" where
  "isFinite (Fin a) = True"
| "isFinite x = False"

fun jneg :: "jsnum \<Rightarrow> jsnum" where
  "jneg (Fin a) = Fin (- a)"
| "jneg PInf = NInf"
| "jneg NInf = PInf"
| "jneg NaN = NaN"

fun jadd :: "jsnum \<Rightarrow> jsnum \<Rightarrow> jsnum" where
  "jadd (Fin a) (Fin b) = Fin (a + b)"
| "jadd NaN y = NaN"
| "jadd x NaN = NaN"
| "jadd PInf NInf = NaN"
| "jadd NInf PInf = NaN"
| "jadd PInf y = PInf"
| "jadd NInf y = NInf"
| "jadd (Fin a) y = y"

definition jsub :: "jsnum \<Rightarrow> jsnum \<Rightarrow> jsnum" where
  "jsub x y = jadd x (jneg y)"

fun jmul :: "jsnum \<Rightarrow> jsnum \<Rightarrow> jsnum" where
  "jmul (Fin a) (Fin b) = Fin (a * b)"
| "jmul NaN y = NaN"
| "jmul x NaN = NaN"
| "jmul (Fin a) PInf = inf_of_sign a"
| "jmul (Fin a) NInf = inf_of_sign (- a)"
| "jmul PInf (Fin b) = inf_of_sign b"
| "jmul NInf (Fin b) = inf_of_sign (- b)"
| "jmul PInf PInf = PInf"
| "jmul NInf NInf = PInf"
| "jmul PInf NInf = NInf"
| "jmul NInf PInf = NInf"

fun jdiv :: "jsnum \<Rightarrow> jsnum \<Rightarrow> jsnum" where
  "jdiv (Fin a) (Fin b) = (if b = 0 then inf_of_sign a else Fin (a / b))"
| "jdiv NaN y = NaN"
| "jdiv x NaN = NaN"
| "jdiv (Fin a) y = Fin 0"
| "jdiv PInf (Fin b) = (if 0 \<le> b then PInf else NInf)"
| "jdiv NInf (Fin b) = (if 0 \<le> b then NInf else PInf)"
| "jdiv x y = NaN"

text \<open>The comparisons \<^verbatim>\<open><\<close>, \<^verbatim>\<open><=\<close>, \<^verbatim>\<open>>\<close> and \<^verbatim>\<open>===\<close>: each is false as soon as one side is
  \<^verbatim>\<open>NaN\<close>.\<close>

fun jlt :: "jsnum \<Rightarrow> jsnum \<Rightarrow> bool" where
  "jlt (Fin a) (Fin b) = (a < b)"
| "jlt NaN y = False"
| "jlt x NaN = False"
| "jlt x NInf = False"
| "jlt PInf y = False"
| "jlt x y = True"

fun jle :: "jsnum \<Rightarrow> jsnum \<Rightarrow> bool" where
  "jle (Fin a) (Fin b) = (a \<le> b)"
| "jle NaN y = False"
| "jle x NaN = False"
| "jle NInf y = True"
| "jle x PInf = True"
| "jle x y = False"

definition jgt :: "jsnum \<Rightarrow> jsnum \<Rightarrow> bool" where
  "jgt x y = jlt y x"

fun jeq :: "jsnum \<Rightarrow> jsnum \<Rightarrow> bool" where
  "jeq (Fin a) (Fin b) = (a = b)"
| "jeq PInf PInf = True"
| "jeq NInf NInf = True"
| "jeq x y = False"

text \<open>\<^verbatim>\<open>Math.round\<close>: the nearest integer, a tie going towards \<open>+\<infinity>\<close>; the non-finite
  values are returned as they are. \<^verbatim>\<open>Math.min\<close> is \<^verbatim>\<open>NaN\<close> as soon as one argument is.\<close>

fun Math_round :: "jsnum \<Rightarrow> jsnum" where
  "Math_round (Fin a) = Fin (of_int \<lfloor>a + 1 / 2\<rfloor>)"
| "Math_round x = x"

fun Math_min :: "jsnum \<Rightarrow> jsnum \<Rightarrow> jsnum" where
  "Math_min NaN y = NaN"
| "Math_min x NaN = NaN"
| "Math_min x y = (if jlt y x then y else x)"


section \<open>Derived metrics: the heatmap colour\<close>

text \<open>
  \<^verbatim>\<open>getHeatmapColor\<close> of the dashboard returns a CSS colour string. Each of its five
  \<^verbatim>\<open>return\<close> statements is one constructor here, carrying the numbers the template
  string interpolates: the opacity of the green zone, and red, green, blue and opacity
  of the yellow, orange and red zones (the grey of "no data" is a constant).
\<close>

datatype heatmap_color =
    Gray200
  | GreenZone jsnum
  | YellowZone jsnum jsnum jsnum jsnum
  | OrangeZone jsnum jsnum jsnum jsnum
  | RedZone jsnum jsnum jsnum jsnum

definition getHeatmapColor :: "jsnum \<Rightarrow> heatmap_color" where
  "getHeatmapColor percentage =
     (if jeq percentage (Fin 0) then Gray200
      else
        let adjustedDistance =
              (if jlt percentage (Fin 100) then jsub (Fin 100) percentage
               else jmul (jsub percentage (Fin 100)) (Fin 0.5))
        in
          if jle adjustedDistance (Fin 15) then
            (let intensity = jsub (Fin 1) (jmul (jdiv adjustedDistance (Fin 15)) (Fin 0.3))
             in GreenZone intensity)
          else if jle adjustedDistance (Fin 30) then
            (let t = jdiv (jsub adjustedDistance (Fin 15)) (Fin 15);
                 r = Math_round (jadd (Fin 34) (jmul (Fin (234 - 34)) t));
                 g = Math_round (jadd (Fin 197) (jmul (Fin (179 - 197)) t));
                 b = Math_round (jadd (Fin 94) (jmul (Fin (0 - 94)) t))
             in YellowZone r g b (jsub (Fin 0.9) (jmul t (Fin 0.1))))
          else if jle adjustedDistance (Fin 50) then
            (let t = jdiv (jsub adjustedDistance (Fin 30)) (Fin 20);
                 r = Math_round (jadd (Fin 234) (jmul (Fin (249 - 234)) t));
                 g = Math_round (jadd (Fin 179) (jmul (Fin (115 - 179)) t));
                 b = Math_round (jadd (Fin 0) (jmul (Fin (0 - 0)) t))
             in OrangeZone r g b (jsub (Fin 0.85) (jmul t (Fin 0.05))))
          else
            (let t = Math_min (jdiv (jsub adjustedDistance (Fin 50)) (Fin 50)) (Fin 1);
                 r = Fin 239;
                 g = Math_round (jsub (Fin 115) (jmul (jmul (Fin 115) t) (Fin 0.3)));
                 b = Math_round (jadd (Fin 0) (jmul (jmul (Fin 68) t) (Fin 0.3)))
             in RedZone r g b (jadd (Fin 0.85) (jmul t (Fin 0.15)))))"

text \<open>
  The specification names the five branches \<open>NoData\<close>, \<open>Good\<close>, \<open>Mid\<close>, \<open>Low\<close> and
  \<open>High\<close>, the last four in the order of rising severity.
\<close>

datatype zone = NoData | Good | Mid | Low | High

fun zoneOf :: "heatmap_color \<Rightarrow> zone" where
  "zoneOf Gray200 = NoData"
| "zoneOf (GreenZone i) = Good"
| "zoneOf (YellowZone r g b a) = Mid"
| "zoneOf (OrangeZone r g b a) = Low"
| "zoneOf (RedZone r g b a) = High"

fun severity :: "zone \<Rightarrow> nat" where
  "severity NoData = 0"
| "severity Good = 1"
| "severity Mid = 2"
| "severity Low = 3"
| "severity High = 4"

text \<open>The adjusted distance in the specification's words, on a finite percentage.\<close>

definition adjustedDistance_spec :: "real \<Rightarrow> real" where
  "adjustedDistance_spec percentage =
     (if percentage < 100 then 100 - percentage else (percentage - 100) * 0.5)"


section \<open>Strings and the credential directory\<close>

text \<open>
  A \<open>string\<close> is a list of characters; a character stands for the UTF-16 code unit of
  the same value (code units above 255 are not modelled). \<^verbatim>\<open>String.prototype.split\<close> with
  a one-character separator cuts at every occurrence of it and keeps empty pieces, so
  the result is never empty. \<^verbatim>\<open>trim\<close> removes white space and line terminators from both
  ends.
\<close>

fun str_split :: "char \<Rightarrow> string \<Rightarrow> string list" where
  "str_split sep [] = [[]]"
| "str_split sep (c # cs) =
     (if c = sep then [] # str_split sep cs
      else (case str_split sep cs of
              p # ps \<Rightarrow> (c # p) # ps
            | [] \<Rightarrow> [[c]]))"

definition isWhiteSpace :: "char \<Rightarrow> bool" where
  "isWhiteSpace c \<longleftrightarrow>
     c \<in> set [CHR 0x09, CHR 0x0A, CHR 0x0B, CHR 0x0C, CHR 0x0D, CHR 0x20, CHR 0xA0]"

definition trim :: "string \<Rightarrow> string" where
  "trim s = rev (dropWhile isWhiteSpace (rev (dropWhile isWhiteSpace s)))"

text \<open>
  \<^verbatim>\<open>API_KEYS_MAP\<close> is filled once, when the module is loaded, from the environment
  variable \<^verbatim>\<open>SPARKYFITNESS_API_KEYS\<close> (\<open>None\<close> when it is not set). \<open>set_entry\<close> is the
  body of the \<^verbatim>\<open>forEach\<close> over the comma-separated entries: an entry is stored only when
  it has exactly three colon-separated parts, none of them empty. The map is modelled
  by its lookups; the insertion order a JavaScript \<^verbatim>\<open>Map\<close> also keeps is not.
\<close>

record credential =
  password :: string
  apiKey :: string

definition set_entry :: "string \<Rightarrow> (string \<rightharpoonup> credential) \<Rightarrow> (string \<rightharpoonup> credential)" where
  "set_entry entry m =
     (case str_split CHR '':'' (trim entry) of
        [username, pass, key] \<Rightarrow>
          if username \<noteq> [] \<and> pass \<noteq> [] \<and> key \<noteq> []
          then m(username \<mapsto> \<lparr>password = pass, apiKey = key\<rparr>)
          else m
      | _ \<Rightarrow> m)"

definition API_KEYS_MAP :: "string option \<Rightarrow> (string \<rightharpoonup> credential)" where
  "API_KEYS_MAP env =
     (let apiKeysEnv = (case env of None \<Rightarrow> [] | Some s \<Rightarrow> s)
      in if apiKeysEnv \<noteq> []
         then fold set_entry (str_split CHR '','' apiKeysEnv) Map.empty
         else Map.empty)"


section \<open>The upstream API and the data contracts\<close>

text \<open>
  Every thrown \<^verbatim>\<open>Error\<close> of the client is a value of \<open>error\<close>: the six messages of the
  module, a rejected \<^verbatim>\<open>fetch\<close> (or a body that is not JSON), and the \<^verbatim>\<open>RangeError\<close> of
  \<^verbatim>\<open>toISOString\<close> on an invalid date. A function that can throw returns \<open>error + 'a\<close>.

  An upstream call is answered by \<open>Ok body\<close> (a 2xx status, the body parsed), by
  \<open>Status s\<close> (any other status \<open>s\<close>, so \<^verbatim>\<open>response.ok\<close> is false) or by \<open>Rejected\<close>.
\<close>

datatype error =
    NoApiKeyConfigured
  | FailedToFetchGoals
  | FailedToFetchProfile
  | FailedToFetchFoodEntries
  | FailedToFetchNutritionHistory
  | NoUserIdFound
  | FetchRejected
  | RangeError

datatype 'a response = Ok 'a | Status nat | Rejected

text \<open>
  A calendar-day string \<^verbatim>\<open>YYYY-MM-DD\<close> is represented by the number of that day, counted
  from 1970-01-01 (day 0): the rendering of a day by \<^verbatim>\<open>toISOString\<close> is one-to-one, and
  the client only compares such strings for equality, as keys of its maps. An upstream
  record whose date is not such a string matches no key and is left out of the model.
\<close>

type_synonym day = int

text \<open>
  The upstream and client records, with the fields the client reads. HOL has one name
  space for record fields, so the fields of the upstream records and of \<open>FoodItem\<close>
  carry their record's name as a prefix; \<open>DailyData\<close> and its \<open>nutrients\<close> keep the
  names of the source. The numbers of an upstream record are parsed from JSON and hence
  finite. \<open>meal_type\<close> follows the declared type of \<^verbatim>\<open>UpstreamFoodEntry\<close>.
\<close>

datatype meal_type = Breakfast | Lunch | Dinner | Snack

record UpstreamProfile =
  profile_id :: "string option"

record UpstreamNutritionDay =
  day_date :: day
  day_calories :: real
  day_protein :: real
  day_carbs :: real
  day_fat :: real

record UpstreamGoals =
  goals_calories :: real
  goals_protein :: real
  goals_carbs :: real
  goals_fat :: real

record UpstreamFoodEntry =
  entry_meal_type :: meal_type
  entry_quantity :: real
  entry_unit :: string
  entry_food_name :: string
  entry_brand_name :: string
  entry_serving_size :: real
  entry_calories :: real
  entry_protein :: real
  entry_carbs :: real
  entry_fat :: real

record FoodItem =
  item_name :: string
  item_brand :: "string option"
  item_quantity :: real
  item_unit :: string
  item_calories :: jsnum
  item_protein :: jsnum
  item_carbs :: jsnum
  item_fat :: jsnum

record Meals =
  breakfast :: "FoodItem list"
  lunch :: "FoodItem list"
  dinner :: "FoodItem list"
  snack :: "FoodItem list"

record Nutrients =
  calories :: jsnum
  protein :: jsnum
  carbs :: jsnum
  fat :: jsnum

record DailyData =
  date :: day
  nutrients :: Nutrients
  meals :: "Meals option"

text \<open>
  What the client reads from outside: the environment variable with the credentials,
  the clock (\<open>now\<close>, milliseconds since the epoch, the value of \<^verbatim>\<open>new Date()\<close>), the time
  zone of the process (\<open>LocalTZA t isUTC\<close>, the offset in milliseconds of local time from
  UTC at the time \<open>t\<close>, read as a UTC time or as a local time), and the four upstream
  endpoints, each answering a request by its parameters: the API key, then the user id
  and the dates of the query string or path. The clock is read once for a call: the
  successive \<^verbatim>\<open>new Date()\<close> of one function are taken to return the same instant.
\<close>

record world =
  SPARKYFITNESS_API_KEYS :: "string option"
  now :: int
  LocalTZA :: "int \<Rightarrow> bool \<Rightarrow> int"
  auth_profiles :: "string \<Rightarrow> UpstreamProfile response"
  goals_by_date :: "string \<Rightarrow> day \<Rightarrow> UpstreamGoals response"
  mini_nutrition_trends :: "string \<Rightarrow> string \<Rightarrow> day \<Rightarrow> day \<Rightarrow> UpstreamNutritionDay list response"
  food_entries_by_date :: "string \<Rightarrow> day \<Rightarrow> UpstreamFoodEntry list response"

definition getApiKey :: "world \<Rightarrow> string \<Rightarrow> error + string" where
  "getApiKey w username =
     (case API_KEYS_MAP (SPARKYFITNESS_API_KEYS w) username of
        None \<Rightarrow> Inl NoApiKeyConfigured
      | Some entry \<Rightarrow> Inr (apiKey entry))"


section \<open>Dates\<close>

text \<open>
  A JavaScript \<^verbatim>\<open>Date\<close> holds a time value: milliseconds since the epoch in UTC, or
  \<^verbatim>\<open>NaN\<close> (an invalid date, \<open>None\<close> here). The functions below are those of the
  ECMAScript specification of \<^verbatim>\<open>Date\<close>, under its names: \<open>Day\<close> and \<open>TimeWithinDay\<close> split a
  time value into its day number and the milliseconds within the day, \<open>MakeDate\<close> puts
  them together, \<open>TimeClip\<close> refuses a time value beyond 8.64e15 in absolute value, \<open>LocalTime\<close> and
  \<open>UTC\<close> convert between UTC and the local time of the process.
\<close>

type_synonym Date = "int option"

definition msPerDay :: int where
  "msPerDay = 86400000"

definition Day :: "int \<Rightarrow> int" where
  "Day t = t div msPerDay"

definition TimeWithinDay :: "int \<Rightarrow> int" where
  "TimeWithinDay t = t mod msPerDay"

definition MakeDate :: "int \<Rightarrow> int \<Rightarrow> int" where
  "MakeDate dy tm = dy * msPerDay + tm"

definition TimeClip :: "int \<Rightarrow> Date" where
  "TimeClip t = (if \<bar>t\<bar> \<le> 8640000000000000 then Some t else None)"

definition LocalTime :: "(int \<Rightarrow> bool \<Rightarrow> int) \<Rightarrow> int \<Rightarrow> int" where
  "LocalTime tza t = t + tza t True"

definition UTC :: "(int \<Rightarrow> bool \<Rightarrow> int) \<Rightarrow> int \<Rightarrow> int" where
  "UTC tza t = t - tza t False"

text \<open>
  The client moves a date only by the idiom \<^verbatim>\<open>d.setDate(d.getDate() + k)\<close>.
  \<^verbatim>\<open>getDate\<close> is the day of the month of the local time \<open>t\<close> of \<open>d\<close>, and \<^verbatim>\<open>setDate(dt)\<close>
  sets the time value to
  \<^verbatim>\<open>TimeClip(UTC(MakeDate(MakeDay(YearFromTime(t), MonthFromTime(t), dt), TimeWithinDay(t))))\<close>.
  \<^verbatim>\<open>MakeDay(y, m, dt)\<close> is the day number of the first of the month plus \<open>dt - 1\<close>, so
  with \<open>dt\<close> the day of the month of \<open>t\<close> plus \<open>k\<close> it is \<open>Day t + k\<close>: the date moves by
  \<open>k\<close> days of the local calendar and keeps its local time of day.
\<close>

definition setDate_getDate_plus :: "(int \<Rightarrow> bool \<Rightarrow> int) \<Rightarrow> Date \<Rightarrow> int \<Rightarrow> Date" where
  "setDate_getDate_plus tza d k =
     (case d of
        None \<Rightarrow> None
      | Some tv \<Rightarrow>
          let t = LocalTime tza tv;
              newDate = MakeDate (Day t + k) (TimeWithinDay t)
          in TimeClip (UTC tza newDate))"

text \<open>
  \<^verbatim>\<open>d.toISOString().split('T')[0]\<close>: the calendar day of the time value in UTC;
  \<^verbatim>\<open>toISOString\<close> throws a \<^verbatim>\<open>RangeError\<close> on an invalid date.
\<close>

definition toISODate :: "Date \<Rightarrow> error + day" where
  "toISODate d = (case d of None \<Rightarrow> Inl RangeError | Some tv \<Rightarrow> Inr (Day tv))"


section \<open>Goals\<close>

text \<open>\<^verbatim>\<open>fetchGoals(username, date?)\<close>: the date defaults to the day of \<^verbatim>\<open>new Date()\<close>.\<close>

definition fetchGoals :: "world \<Rightarrow> string \<Rightarrow> day option \<Rightarrow> error + UpstreamGoals" where
  "fetchGoals w username dateOpt =
     (case getApiKey w username of
        Inl e \<Rightarrow> Inl e
      | Inr key \<Rightarrow>
          (case (case dateOpt of Some d \<Rightarrow> Inr d | None \<Rightarrow> toISODate (Some (now w))) of
             Inl e \<Rightarrow> Inl e
           | Inr targetDate \<Rightarrow>
               (case goals_by_date w key targetDate of
                  Rejected \<Rightarrow> Inl FetchRejected
                | Status s \<Rightarrow> Inl FailedToFetchGoals
                | Ok goals \<Rightarrow> Inr goals)))"


section \<open>Food entries\<close>

text \<open>
  \<open>foodItem\<close> is the body of the \<^verbatim>\<open>forEach\<close> of \<^verbatim>\<open>fetchFoodEntriesForDate\<close> up to the
  \<^verbatim>\<open>push\<close>: the ratio \<^verbatim>\<open>quantity / serving_size\<close> is not guarded, and each nutrient is
  \<^verbatim>\<open>Math.round(value * ratio * 10) / 10\<close>. A 404 answer is an empty breakdown, any other
  failure is thrown.
\<close>

definition empty_meals :: Meals where
  "empty_meals = \<lparr>breakfast = [], lunch = [], dinner = [], snack = []\<rparr>"

definition foodItem :: "UpstreamFoodEntry \<Rightarrow> FoodItem" where
  "foodItem entry =
     (let ratio = jdiv (Fin (entry_quantity entry)) (Fin (entry_serving_size entry))
      in \<lparr>item_name = entry_food_name entry,
          item_brand = (if entry_brand_name entry = [] then None else Some (entry_brand_name entry)),
          item_quantity = entry_quantity entry,
          item_unit = entry_unit entry,
          item_calories = jdiv (Math_round (jmul (jmul (Fin (entry_calories entry)) ratio) (Fin 10))) (Fin 10),
          item_protein = jdiv (Math_round (jmul (jmul (Fin (entry_protein entry)) ratio) (Fin 10))) (Fin 10),
          item_carbs = jdiv (Math_round (jmul (jmul (Fin (entry_carbs entry)) ratio) (Fin 10))) (Fin 10),
          item_fat = jdiv (Math_round (jmul (jmul (Fin (entry_fat entry)) ratio) (Fin 10))) (Fin 10)\<rparr>)"

fun bucket :: "meal_type \<Rightarrow> Meals \<Rightarrow> FoodItem list" where
  "bucket Breakfast m = breakfast m"
| "bucket Lunch m = lunch m"
| "bucket Dinner m = dinner m"
| "bucket Snack m = snack m"

fun push :: "meal_type \<Rightarrow> FoodItem \<Rightarrow> Meals \<Rightarrow> Meals" where
  "push Breakfast x m = m\<lparr>breakfast := breakfast m @ [x]\<rparr>"
| "push Lunch x m = m\<lparr>lunch := lunch m @ [x]\<rparr>"
| "push Dinner x m = m\<lparr>dinner := dinner m @ [x]\<rparr>"
| "push Snack x m = m\<lparr>snack := snack m @ [x]\<rparr>"

definition addFoodEntry :: "UpstreamFoodEntry \<Rightarrow> Meals \<Rightarrow> Meals" where
  "addFoodEntry entry m = push (entry_meal_type entry) (foodItem entry) m"

definition fetchFoodEntriesForDate :: "world \<Rightarrow> string \<Rightarrow> day \<Rightarrow> error + Meals" where
  "fetchFoodEntriesForDate w username dateStr =
     (case getApiKey w username of
        Inl e \<Rightarrow> Inl e
      | Inr key \<Rightarrow>
          (case food_entries_by_date w key dateStr of
             Rejected \<Rightarrow> Inl FetchRejected
           | Status s \<Rightarrow> if s = 404 then Inr empty_meals else Inl FailedToFetchFoodEntries
           | Ok entries \<Rightarrow> Inr (fold addFoodEntry entries empty_meals)))"


section \<open>Nutrition history\<close>

text \<open>
  \<^verbatim>\<open>fetchNutritionHistory(username, days, includeMeals)\<close> in the order of the source.
  \<open>fetchTrends\<close> is its first half (steps 1 to 3): the API key, the profile call for the
  user id, the date range and the call for the daily totals. \<open>days\<close> is an integer (the
  route passes the result of \<^verbatim>\<open>parseInt\<close>, whose \<^verbatim>\<open>NaN\<close> is not modelled, the profile
  passes 90).
\<close>

definition startDate_of :: "world \<Rightarrow> int \<Rightarrow> Date" where
  "startDate_of w days = setDate_getDate_plus (LocalTZA w) (Some (now w)) (- days + 1)"

definition fetchTrends :: "world \<Rightarrow> string \<Rightarrow> int \<Rightarrow> error + UpstreamNutritionDay list" where
  "fetchTrends w username days =
     (case getApiKey w username of
        Inl e \<Rightarrow> Inl e
      | Inr key \<Rightarrow>
          (case auth_profiles w key of
             Rejected \<Rightarrow> Inl FetchRejected
           | Status s \<Rightarrow> Inl FailedToFetchProfile
           | Ok profileData \<Rightarrow>
               (case profile_id profileData of
                  None \<Rightarrow> Inl NoUserIdFound
                | Some userId \<Rightarrow>
                    if userId = [] then Inl NoUserIdFound
                    else
                      (let endDate = Some (now w);
                           startDate = startDate_of w days
                       in case toISODate endDate of
                            Inl e \<Rightarrow> Inl e
                          | Inr endDateStr \<Rightarrow>
                              (case toISODate startDate of
                                 Inl e \<Rightarrow> Inl e
                               | Inr startDateStr \<Rightarrow>
                                   (case mini_nutrition_trends w key userId startDateStr endDateStr of
                                      Rejected \<Rightarrow> Inl FetchRejected
                                    | Status s \<Rightarrow> Inl FailedToFetchNutritionHistory
                                    | Ok nutritionData \<Rightarrow> Inr nutritionData))))))"

text \<open>Step 4, the map from a date to its upstream record: a later record replaces an
  earlier one of the same date.\<close>

definition nutritionMap_of :: "UpstreamNutritionDay list \<Rightarrow> (day \<rightharpoonup> UpstreamNutritionDay)" where
  "nutritionMap_of nutritionData = fold (\<lambda>dy m. m(day_date dy \<mapsto> dy)) nutritionData Map.empty"

text \<open>
  Step 5, the loop \<^verbatim>\<open>for (let i = 0; i < days; i++)\<close> that fills \<^verbatim>\<open>dateStrings\<close>: a copy
  of \<^verbatim>\<open>startDate\<close> moved by \<open>i\<close> days, rendered. \<open>collect\<close> runs the body over the indices
  and stops at the first one that throws.
\<close>

fun collect :: "('a \<Rightarrow> error + 'b) \<Rightarrow> 'a list \<Rightarrow> error + 'b list" where
  "collect f [] = Inr []"
| "collect f (x # xs) =
     (case f x of
        Inl e \<Rightarrow> Inl e
      | Inr y \<Rightarrow> (case collect f xs of Inl e \<Rightarrow> Inl e | Inr ys \<Rightarrow> Inr (y # ys)))"

definition dateStrings_of :: "world \<Rightarrow> int \<Rightarrow> error + day list" where
  "dateStrings_of w days =
     collect (\<lambda>i. toISODate (setDate_getDate_plus (LocalTZA w) (startDate_of w days) (int i)))
       [0..<nat days]"

text \<open>
  One promise per date: the meals of the date, or the empty breakdown when
  \<^verbatim>\<open>fetchFoodEntriesForDate\<close> rejects (the \<^verbatim>\<open>.catch\<close>). \<^verbatim>\<open>Promise.all\<close> keeps the results in
  the order of the dates, whatever the order in which the calls complete; the results
  are then put into \<^verbatim>\<open>mealsMap\<close>.
\<close>

definition mealsOrEmpty :: "world \<Rightarrow> string \<Rightarrow> day \<Rightarrow> Meals" where
  "mealsOrEmpty w username dateStr =
     (case fetchFoodEntriesForDate w username dateStr of
        Inr ms \<Rightarrow> ms
      | Inl e \<Rightarrow> empty_meals)"

definition mealsMap_of :: "world \<Rightarrow> string \<Rightarrow> bool \<Rightarrow> day list \<Rightarrow> (day \<rightharpoonup> Meals)" where
  "mealsMap_of w username includeMeals dateStrings =
     (if includeMeals
      then fold (\<lambda>(dateStr, ms) m. m(dateStr \<mapsto> ms))
             (map (\<lambda>dateStr. (dateStr, mealsOrEmpty w username dateStr)) dateStrings) Map.empty
      else Map.empty)"

text \<open>The record pushed for one date by the last loop.\<close>

definition dailyData ::
  "(day \<rightharpoonup> UpstreamNutritionDay) \<Rightarrow> (day \<rightharpoonup> Meals) \<Rightarrow> bool \<Rightarrow> day \<Rightarrow> DailyData" where
  "dailyData nutritionMap mealsMap includeMeals dateStr =
     \<lparr>date = dateStr,
      nutrients =
        (case nutritionMap dateStr of
           Some dayData \<Rightarrow>
             \<lparr>calories = jdiv (Math_round (jmul (Fin (day_calories dayData)) (Fin 10))) (Fin 10),
              protein = jdiv (Math_round (jmul (Fin (day_protein dayData)) (Fin 10))) (Fin 10),
              carbs = jdiv (Math_round (jmul (Fin (day_carbs dayData)) (Fin 10))) (Fin 10),
              fat = jdiv (Math_round (jmul (Fin (day_fat dayData)) (Fin 10))) (Fin 10)\<rparr>
         | None \<Rightarrow> \<lparr>calories = Fin 0, protein = Fin 0, carbs = Fin 0, fat = Fin 0\<rparr>),
      meals =
        (if includeMeals
         then Some (case mealsMap dateStr of Some ms \<Rightarrow> ms | None \<Rightarrow> empty_meals)
         else None)\<rparr>"

definition fetchNutritionHistory :: "world \<Rightarrow> string \<Rightarrow> int \<Rightarrow> bool \<Rightarrow> error + DailyData list" where
  "fetchNutritionHistory w username days includeMeals =
     (case fetchTrends w username days of
        Inl e \<Rightarrow> Inl e
      | Inr nutritionData \<Rightarrow>
          (let nutritionMap = nutritionMap_of nutritionData
           in case dateStrings_of w days of
                Inl e \<Rightarrow> Inl e
              | Inr dateStrings \<Rightarrow>
                  (let mealsMap = mealsMap_of w username includeMeals dateStrings
                   in Inr (map (dailyData nutritionMap mealsMap includeMeals) dateStrings))))"

text \<open>
  The loader of the route \<^verbatim>\<open>/api/:username/nutrition/history\<close>, from the parsed
  \<^verbatim>\<open>days\<close> on: the status of the response and the history it carries.
\<close>

definition loader :: "world \<Rightarrow> string \<Rightarrow> int \<Rightarrow> nat \<times> DailyData list option" where
  "loader w username days =
     (if username = [] then (400, None)
      else (case fetchNutritionHistory w username days False of
              Inl e \<Rightarrow> (500, None)
            | Inr history \<Rightarrow> (200, Some history)))"


section \<open>Derived metrics: streak and days tracked\<close>

text \<open>
  \<^verbatim>\<open>calculateStreakAndTotalDays(nutritionHistory)\<close>. \<open>streakLoop\<close> is its \<^verbatim>\<open>while (true)\<close>:
  the state is the date walked to and the streak so far; \<open>n\<close> is the length of the
  history, read by the safety check after the increment. The loop ends because the
  streak grows in every round and the safety check stops it above \<open>n\<close>.
\<close>

record StreakAndTotalDays =
  currentStreak :: nat
  totalDays :: nat

function streakLoop ::
  "(int \<Rightarrow> bool \<Rightarrow> int) \<Rightarrow> (day \<rightharpoonup> DailyData) \<Rightarrow> nat \<Rightarrow> Date \<Rightarrow> nat \<Rightarrow> error + nat" where
  "streakLoop tza nutritionMap n currentDate streak =
     (case toISODate currentDate of
        Inl e \<Rightarrow> Inl e
      | Inr dateStr \<Rightarrow>
          (case nutritionMap dateStr of
             None \<Rightarrow> Inr streak
           | Some dayData \<Rightarrow>
               if jeq (calories (nutrients dayData)) (Fin 0) then Inr streak
               else if Suc streak > n then Inr (Suc streak)
               else streakLoop tza nutritionMap n (setDate_getDate_plus tza currentDate (- 1)) (Suc streak)))"
  by pat_completeness auto
termination
  by (relation "measure (\<lambda>(tza, nutritionMap, n, currentDate, streak). Suc n - streak)") auto

declare streakLoop.simps [simp del]

definition calculateStreakAndTotalDays :: "world \<Rightarrow> DailyData list \<Rightarrow> error + StreakAndTotalDays" where
  "calculateStreakAndTotalDays w nutritionHistory =
     (let totalDays = length (filter (\<lambda>dy. jgt (calories (nutrients dy)) (Fin 0)) nutritionHistory);
          nutritionMap = fold (\<lambda>dy m. m(date dy \<mapsto> dy)) nutritionHistory Map.empty
      in case streakLoop (LocalTZA w) nutritionMap (length nutritionHistory) (Some (now w)) 0 of
           Inl e \<Rightarrow> Inl e
         | Inr streak \<Rightarrow> Inr \<lparr>currentStreak = streak, totalDays = totalDays\<rparr>)"


section \<open>Notions of the specification\<close>


text \<open>A time value a \<^verbatim>\<open>Date\<close> can hold.\<close>

definition validTime :: "int \<Rightarrow> bool" where
  "validTime t \<longleftrightarrow> \<bar>t\<bar> \<le> 8640000000000000"

text \<open>Today as the calendar day in UTC, and as the calendar day of the process's zone.\<close>

definition utcToday :: "world \<Rightarrow> day" where
  "utcToday w = Day (now w)"

definition localToday :: "world \<Rightarrow> day" where
  "localToday w = Day (LocalTime (LocalTZA w) (now w))"



definition hit :: "(day \<rightharpoonup> DailyData) \<Rightarrow> day \<Rightarrow> bool" where
  "hit m d =
     (case m d of
        None \<Rightarrow> False
      | Some dayData \<Rightarrow> \<not> jeq (calories (nutrients dayData)) (Fin 0))"


section \<open>Example worlds\<close>

text \<open>
  Three time zones: UTC, a zone seven hours ahead of UTC all year, and Berlin with its
  rules of 2024 (one hour ahead of UTC, two hours between 2024-03-31 01:00 UTC and
  2024-10-27 01:00 UTC; a local time that is skipped or repeated at a change is read
  with the offset in force before the change).
\<close>

definition utc :: "int \<Rightarrow> bool \<Rightarrow> int" where
  "utc t isUTC = 0"

definition utc_plus_7 :: "int \<Rightarrow> bool \<Rightarrow> int" where
  "utc_plus_7 t isUTC = 25200000"

definition berlin_2024 :: "int \<Rightarrow> bool \<Rightarrow> int" where
  "berlin_2024 t isUTC =
     (if isUTC
      then (if 1711846800000 \<le> t \<and> t < 1729990800000 then 7200000 else 3600000)
      else (if 1711854000000 \<le> t \<and> t < 1729998000000 then 7200000 else 3600000))"

text \<open>
  A world with one user, \<open>alice\<close>. The totals endpoint knows one day, 2024-03-31
  (day 19813); the food endpoint fails for that day and returns one entry, 150 g of a
  food with values per 100 g, for every other day; goals exist for 2024-01-02
  (day 19724) only.
\<close>

definition rice :: UpstreamFoodEntry where
  "rice = \<lparr>entry_meal_type = Lunch, entry_quantity = 150, entry_unit = ''g'',
            entry_food_name = ''rice'', entry_brand_name = [], entry_serving_size = 100,
            entry_calories = 200, entry_protein = 4.2, entry_carbs = 44.4, entry_fat = 0.4\<rparr>"

definition example_world :: "(int \<Rightarrow> bool \<Rightarrow> int) \<Rightarrow> int \<Rightarrow> world" where
  "example_world tza t =
     \<lparr>SPARKYFITNESS_API_KEYS = Some ''alice:pw:key1'',
      now = t,
      LocalTZA = tza,
      auth_profiles = (\<lambda>key. if key = ''key1'' then Ok \<lparr>profile_id = Some ''u1''\<rparr> else Status 401),
      goals_by_date = (\<lambda>key d.
         if d = 19724
         then Ok \<lparr>goals_calories = 2000, goals_protein = 150, goals_carbs = 200, goals_fat = 70\<rparr>
         else Status 404),
      mini_nutrition_trends = (\<lambda>key userId startDateStr endDateStr.
         Ok [\<lparr>day_date = 19813, day_calories = 1234.56, day_protein = 80.04,
              day_carbs = 200.26, day_fat = 0\<rparr>]),
      food_entries_by_date = (\<lambda>key d. if d = 19813 then Status 500 else Ok [rice])\<rparr>"

text \<open>A record of a history with the given date and calories.\<close>

definition logged :: "day \<Rightarrow> real \<Rightarrow> DailyData" where
  "logged d c =
     \<lparr>date = d, nutrients = \<lparr>calories = Fin c, protein = Fin 0, carbs = Fin 0, fat = Fin 0\<rparr>,
      meals = None\<rparr>"


section \<open>Properties of the heatmap colour\<close>

lemma getHeatmapColor_Fin:
  "zoneOf (getHeatmapColor (Fin p)) =
     (if p = 0 then NoData
      else if adjustedDistance_spec p \<le> 15 then Good
      else if adjustedDistance_spec p \<le> 30 then Mid
      else if adjustedDistance_spec p \<le> 50 then Low
      else High)"
  by (simp add: getHeatmapColor_def adjustedDistance_spec_def jsub_def Let_def)

lemma getHeatmapColor_nonfinite:
  "zoneOf (getHeatmapColor NaN) = High"
  "zoneOf (getHeatmapColor PInf) = High"
  "zoneOf (getHeatmapColor NInf) = High"
  by (simp_all add: getHeatmapColor_def jsub_def Let_def)

text \<open>
  C3. The zone is the specified function of the percentage: a percentage of 0 is
  \<open>NoData\<close>; any other finite percentage is \<open>Good\<close>, \<open>Mid\<close>, \<open>Low\<close> or \<open>High\<close> as its
  adjusted distance (the distance below 100 at full weight, the distance above 100 at
  half weight) is at most 15, in (15, 30], in (30, 50] or above 50. Hence 100 is \<open>Good\<close>,
  and among non-zero percentages the severity never decreases when the adjusted
  distance increases.
\<close>

theorem C3_heatmap_zone:
  "(p = 0 \<longrightarrow> zoneOf (getHeatmapColor (Fin p)) = NoData)
   \<and> (p \<noteq> 0 \<and> adjustedDistance_spec p \<le> 15 \<longrightarrow> zoneOf (getHeatmapColor (Fin p)) = Good)
   \<and> (p \<noteq> 0 \<and> 15 < adjustedDistance_spec p \<and> adjustedDistance_spec p \<le> 30
        \<longrightarrow> zoneOf (getHeatmapColor (Fin p)) = Mid)
   \<and> (p \<noteq> 0 \<and> 30 < adjustedDistance_spec p \<and> adjustedDistance_spec p \<le> 50
        \<longrightarrow> zoneOf (getHeatmapColor (Fin p)) = Low)
   \<and> (p \<noteq> 0 \<and> 50 < adjustedDistance_spec p \<longrightarrow> zoneOf (getHeatmapColor (Fin p)) = High)
   \<and> zoneOf (getHeatmapColor (Fin 100)) = Good
   \<and> (p \<noteq> 0 \<and> q \<noteq> 0 \<and> adjustedDistance_spec p \<le> adjustedDistance_spec q
        \<longrightarrow> severity (zoneOf (getHeatmapColor (Fin p)))
            \<le> severity (zoneOf (getHeatmapColor (Fin q))))"
proof -
  have at100: "adjustedDistance_spec 100 = 0"
    by (simp add: adjustedDistance_spec_def)
  show ?thesis
    unfolding getHeatmapColor_Fin using at100 by auto
qed

theorem C3_heatmap_zone_witness:
  "zoneOf (getHeatmapColor (Fin 0)) = NoData
   \<and> zoneOf (getHeatmapColor (Fin 90)) = Good
   \<and> zoneOf (getHeatmapColor (Fin 75)) = Mid
   \<and> zoneOf (getHeatmapColor (Fin 180)) = Low
   \<and> zoneOf (getHeatmapColor (Fin 40)) = High
   \<and> getHeatmapColor (Fin 130) = GreenZone (Fin 0.7)
   \<and> severity (zoneOf (getHeatmapColor (Fin 90))) \<le> severity (zoneOf (getHeatmapColor (Fin 40)))"
proof -
  have ad: "adjustedDistance_spec 90 = 10" "adjustedDistance_spec 75 = 25"
    "adjustedDistance_spec 180 = 40" "adjustedDistance_spec 40 = 60"
    by (simp_all add: adjustedDistance_spec_def)
  have g: "getHeatmapColor (Fin 130) = GreenZone (Fin 0.7)"
    by (simp add: getHeatmapColor_def jsub_def Let_def)
  show ?thesis
    using C3_heatmap_zone [of 0 90] C3_heatmap_zone [of 90 40] C3_heatmap_zone [of 75 90]
      C3_heatmap_zone [of 180 90] C3_heatmap_zone [of 40 90] ad g
    by simp
qed


section \<open>Properties of the credential directory\<close>

lemma dom_fold_set_entry:
  "dom (fold set_entry entries m) =
     dom m \<union> {username. \<exists>entry \<in> set entries. \<exists>pass key.
        str_split CHR '':'' (trim entry) = [username, pass, key]
        \<and> username \<noteq> [] \<and> pass \<noteq> [] \<and> key \<noteq> []}"
proof (induction entries arbitrary: m)
  case Nil
  then show ?case by simp
next
  case (Cons entry entries)
  have step: "dom (set_entry entry m) =
      dom m \<union> {username. \<exists>pass key.
        str_split CHR '':'' (trim entry) = [username, pass, key]
        \<and> username \<noteq> [] \<and> pass \<noteq> [] \<and> key \<noteq> []}"
    by (auto simp: set_entry_def split: list.splits if_splits)
  show ?case
    unfolding fold_simps Cons.IH step by auto
qed

lemma dom_API_KEYS_MAP:
  "dom (API_KEYS_MAP (Some s)) =
     {username. \<exists>entry \<in> set (str_split CHR '','' s). \<exists>pass key.
        str_split CHR '':'' (trim entry) = [username, pass, key]
        \<and> username \<noteq> [] \<and> pass \<noteq> [] \<and> key \<noteq> []}"
proof (cases "s = []")
  case True
  then show ?thesis
    by (simp add: API_KEYS_MAP_def trim_def)
next
  case False
  then show ?thesis
    by (simp add: API_KEYS_MAP_def dom_fold_set_entry)
qed

lemma trim_whitespace_around:
  assumes a: "\<forall>c \<in> set a. isWhiteSpace c" and b: "\<forall>c \<in> set b. isWhiteSpace c"
  shows "trim (a @ entry @ b) = trim entry"
proof -
  have lead: "dropWhile isWhiteSpace (a @ entry @ b) = dropWhile isWhiteSpace (entry @ b)"
    using a by (simp add: dropWhile_append2)
  show ?thesis
  proof (cases "\<forall>c \<in> set entry. isWhiteSpace c")
    case True
    then have e: "dropWhile isWhiteSpace (entry @ b) = []" "dropWhile isWhiteSpace entry = []"
      using b by (simp_all add: dropWhile_eq_Nil_conv)
    show ?thesis unfolding trim_def lead e by simp
  next
    case False
    then obtain c where "c \<in> set entry" "\<not> isWhiteSpace c" by blast
    then have "dropWhile isWhiteSpace (entry @ b) = dropWhile isWhiteSpace entry @ b"
      by (simp add: dropWhile_append1)
    moreover have "dropWhile isWhiteSpace (rev b @ t) = dropWhile isWhiteSpace t" for t
      by (rule dropWhile_append2) (use b in simp)
    ultimately show ?thesis by (simp add: trim_def lead)
  qed
qed

text \<open>
  C6, as amended. The parser accepts the three-part form
  \<^verbatim>\<open>identity:accessSecret:apiKey\<close> only: the identities bound are exactly those of the
  comma-separated entries that, once trimmed, have three colon-separated parts, none
  of them empty. An entry with another number of parts, the two-part
  \<^verbatim>\<open>identity:apiKey\<close> among them, is skipped and leaves the table as it was; nothing is
  thrown. White space around an entry does not change what the entry does.
\<close>

theorem C6_three_part_entries_only:
  "dom (API_KEYS_MAP (Some s)) =
     {username. \<exists>entry \<in> set (str_split CHR '','' s). \<exists>pass key.
        str_split CHR '':'' (trim entry) = [username, pass, key]
        \<and> username \<noteq> [] \<and> pass \<noteq> [] \<and> key \<noteq> []}
   \<and> (length (str_split CHR '':'' (trim entry)) \<noteq> 3 \<longrightarrow> set_entry entry m = m)
   \<and> ((\<forall>c \<in> set a. isWhiteSpace c) \<and> (\<forall>c \<in> set b. isWhiteSpace c)
        \<longrightarrow> set_entry (a @ entry @ b) m = set_entry entry m)"
proof -
  have skip: "length (str_split CHR '':'' (trim entry)) \<noteq> 3 \<Longrightarrow> set_entry entry m = m"
    by (auto simp: set_entry_def split: list.splits)
  have ws: "(\<forall>c \<in> set a. isWhiteSpace c) \<and> (\<forall>c \<in> set b. isWhiteSpace c)
      \<Longrightarrow> set_entry (a @ entry @ b) m = set_entry entry m"
    by (simp add: set_entry_def trim_whitespace_around)
  show ?thesis
    using dom_API_KEYS_MAP skip ws by blast
qed

theorem C6_three_part_entries_only_witness:
  "dom (API_KEYS_MAP (Some ''alice:pw:key1, bob:s3:key2 ,carol:key3'')) = {''alice'', ''bob''}
   \<and> set_entry ''carol:key3'' Map.empty = Map.empty
   \<and> set_entry '' bob:s3:key2 '' Map.empty = set_entry ''bob:s3:key2'' Map.empty
   \<and> API_KEYS_MAP (Some ''alice:pw:key1, bob:s3:key2 ,carol:key3'') ''bob''
        = Some \<lparr>password = ''s3'', apiKey = ''key2''\<rparr>"
proof -
  have d: "dom (API_KEYS_MAP (Some ''alice:pw:key1, bob:s3:key2 ,carol:key3'')) = {''alice'', ''bob''}"
    by (simp add: API_KEYS_MAP_def set_entry_def trim_def isWhiteSpace_def insert_commute)
  have l: "length (str_split CHR '':'' (trim ''carol:key3'')) \<noteq> 3"
    by (simp add: trim_def isWhiteSpace_def)
  have w: "(\<forall>c \<in> set '' ''. isWhiteSpace c)"
    by (simp add: isWhiteSpace_def)
  have v: "API_KEYS_MAP (Some ''alice:pw:key1, bob:s3:key2 ,carol:key3'') ''bob''
        = Some \<lparr>password = ''s3'', apiKey = ''key2''\<rparr>"
    by (simp add: API_KEYS_MAP_def set_entry_def trim_def isWhiteSpace_def)
  show ?thesis
    using C6_three_part_entries_only [of "''alice:pw:key1, bob:s3:key2 ,carol:key3''"
        "''carol:key3''" Map.empty "'' ''" "'' ''"]
      C6_three_part_entries_only [of "''x''" "''bob:s3:key2''" Map.empty "'' ''" "'' ''"]
      l w v
    unfolding d by simp
qed

text \<open>A two-part entry, an identity and a key, binds nothing.\<close>

theorem C6_two_part_entry_counterexample:
  "str_split CHR '':'' (trim ''alice:key1'') = [''alice'', ''key1'']
   \<and> API_KEYS_MAP (Some ''alice:key1'') ''alice'' = None"
  by (simp add: API_KEYS_MAP_def set_entry_def trim_def isWhiteSpace_def)


section \<open>Rounding, dates and loops\<close>




lemma Day_add: "Day (t + k * msPerDay) = Day t + k"
  by (simp add: Day_def msPerDay_def)

lemma Day_sub: "Day (t - k * msPerDay) = Day t - k"
  using Day_add [of t "- k"] by simp

text \<open>
  In a zone whose offset from UTC never changes, the idiom moves the time value by whole
  days.
\<close>

lemma setDate_fixed:
  "setDate_getDate_plus (\<lambda>t isUTC. offset) (Some tv) k = TimeClip (tv + k * msPerDay)"
proof -
  have "(tv + offset) div msPerDay * msPerDay + (tv + offset) mod msPerDay = tv + offset"
    by simp
  then have "MakeDate (Day (tv + offset) + k) (TimeWithinDay (tv + offset)) - offset = tv + k * msPerDay"
    by (simp add: MakeDate_def Day_def TimeWithinDay_def algebra_simps)
  then show ?thesis
    by (simp add: setDate_getDate_plus_def LocalTime_def UTC_def Let_def)
qed

lemma TimeClip_valid: "validTime t \<Longrightarrow> TimeClip t = Some t"
  by (simp add: TimeClip_def validTime_def)

lemma validTime_between:
  "validTime a \<Longrightarrow> validTime b \<Longrightarrow> a \<le> t \<Longrightarrow> t \<le> b \<Longrightarrow> validTime t"
  by (simp add: validTime_def abs_le_iff)

lemma collect_Inr:
  "(\<And>x. x \<in> set xs \<Longrightarrow> f x = Inr (g x)) \<Longrightarrow> collect f xs = Inr (map g xs)"
  by (induction xs) simp_all

lemma collect_length: "collect f xs = Inr ys \<Longrightarrow> length ys = length xs"
  by (induction xs arbitrary: ys) (auto split: sum.splits)

lemma startDate_fixed:
  assumes "LocalTZA w = (\<lambda>t isUTC. offset)" "validTime (now w - (days - 1) * msPerDay)"
  shows "startDate_of w days = Some (now w - (days - 1) * msPerDay)"
proof -
  have "now w + (- days + 1) * msPerDay = now w - (days - 1) * msPerDay"
    by (simp add: algebra_simps)
  then show ?thesis
    using assms by (simp add: startDate_of_def setDate_fixed TimeClip_valid)
qed

lemma dateStrings_fixed:
  assumes tz: "LocalTZA w = (\<lambda>t isUTC. offset)"
    and s: "validTime (now w - (days - 1) * msPerDay)" and e: "validTime (now w)"
  shows "dateStrings_of w days = Inr (map (\<lambda>i. Day (now w) - (days - 1) + int i) [0..<nat days])"
proof -
  let ?start = "now w - (days - 1) * msPerDay"
  have step: "toISODate (setDate_getDate_plus (LocalTZA w) (startDate_of w days) (int i))
      = Inr (Day (now w) - (days - 1) + int i)" if "i \<in> set [0..<nat days]" for i
  proof -
    from that have i: "int i \<le> days - 1" by auto
    have "?start \<le> ?start + int i * msPerDay"
      by (simp add: msPerDay_def)
    moreover have "?start + int i * msPerDay \<le> now w"
      using i by (simp add: msPerDay_def algebra_simps)
    ultimately have v: "validTime (?start + int i * msPerDay)"
      using validTime_between [OF s e] by blast
    have "Day (?start + int i * msPerDay) = Day (now w) - (days - 1) + int i"
      using Day_add [of "now w" "- (days - 1) + int i"] by (simp add: algebra_simps)
    then show ?thesis
      using v by (simp add: startDate_fixed [OF tz s] tz setDate_fixed TimeClip_valid toISODate_def)
  qed
  show ?thesis
    unfolding dateStrings_of_def by (rule collect_Inr) (rule step)
qed





lemma fold_pairs_lookup:
  "fold (\<lambda>(dateStr, ms) m. m(dateStr \<mapsto> ms)) (map (\<lambda>dateStr. (dateStr, g dateStr)) ds) m0 d =
     (if d \<in> set ds then Some (g d) else m0 d)"
  by (induction ds arbitrary: m0) auto

lemma mealsMap_of_lookup:
  "d \<in> set ds \<Longrightarrow> mealsMap_of w username True ds d = Some (mealsOrEmpty w username d)"
  by (simp add: mealsMap_of_def fold_pairs_lookup)


section \<open>Properties of the food entries\<close>

lemma bucket_push:
  "bucket t (push t' x m) = (if t = t' then bucket t m @ [x] else bucket t m)"
  by (cases t; cases t') simp_all

lemma bucket_fold_addFoodEntry:
  "bucket t (fold addFoodEntry entries m) =
     bucket t m @ map foodItem (filter (\<lambda>e. entry_meal_type e = t) entries)"
  by (induction entries arbitrary: m) (auto simp: addFoodEntry_def bucket_push)

lemma bucket_empty_meals: "bucket t empty_meals = []"
  by (cases t) (simp_all add: empty_meals_def)

lemma fetchFoodEntriesForDate_Ok:
  assumes "getApiKey w username = Inr key" "food_entries_by_date w key dateStr = Ok entries"
  shows "\<exists>ms. fetchFoodEntriesForDate w username dateStr = Inr ms
           \<and> (\<forall>t. bucket t ms = map foodItem (filter (\<lambda>e. entry_meal_type e = t) entries))"
  using assms by (simp add: fetchFoodEntriesForDate_def bucket_fold_addFoodEntry bucket_empty_meals)


lemma scaled_nonfinite:
  "\<not> isFinite (jdiv (Math_round (jmul (jmul (Fin v) (jdiv (Fin q) (Fin 0))) (Fin 10))) (Fin 10))"
  by simp


text \<open>
  C10. The division by the serving size is not guarded: when the call succeeds and an
  entry has serving size 0, the call still returns, the entry's item is in its bucket,
  and none of its four nutrient values is finite.
\<close>

theorem C10_unguarded_division:
  assumes "getApiKey w username = Inr key" "food_entries_by_date w key dateStr = Ok entries"
    and "e \<in> set entries" "entry_serving_size e = 0"
  shows "\<exists>ms. fetchFoodEntriesForDate w username dateStr = Inr ms
           \<and> foodItem e \<in> set (bucket (entry_meal_type e) ms)
           \<and> \<not> isFinite (item_calories (foodItem e))
           \<and> \<not> isFinite (item_protein (foodItem e))
           \<and> \<not> isFinite (item_carbs (foodItem e))
           \<and> \<not> isFinite (item_fat (foodItem e))"
proof -
  from fetchFoodEntriesForDate_Ok [OF assms(1,2)] obtain ms where
    ms: "fetchFoodEntriesForDate w username dateStr = Inr ms"
    and b: "\<And>t. bucket t ms = map foodItem (filter (\<lambda>e. entry_meal_type e = t) entries)"
    by blast
  have "foodItem e \<in> set (bucket (entry_meal_type e) ms)"
    using assms(3) by (simp add: b)
  moreover have "\<not> isFinite (item_calories (foodItem e))" "\<not> isFinite (item_protein (foodItem e))"
    "\<not> isFinite (item_carbs (foodItem e))" "\<not> isFinite (item_fat (foodItem e))"
    unfolding foodItem_def Let_def assms(4) by (simp_all add: scaled_nonfinite)
  ultimately show ?thesis
    using ms by blast
qed


section \<open>Properties of the nutrition history\<close>

lemma history_Inr_iff:
  "fetchNutritionHistory w username days includeMeals = Inr h \<longleftrightarrow>
     (\<exists>nutritionData ds. fetchTrends w username days = Inr nutritionData
        \<and> dateStrings_of w days = Inr ds
        \<and> h = map (dailyData (nutritionMap_of nutritionData)
                     (mealsMap_of w username includeMeals ds) includeMeals) ds)"
  by (auto simp: fetchNutritionHistory_def Let_def split: sum.splits)

lemma history_eval:
  assumes "fetchTrends w username days = Inr nutritionData" "dateStrings_of w days = Inr ds"
  shows "fetchNutritionHistory w username days includeMeals =
           Inr (map (dailyData (nutritionMap_of nutritionData)
                  (mealsMap_of w username includeMeals ds) includeMeals) ds)"
  using assms by (simp add: history_Inr_iff)

lemma dateStrings_of_length: "dateStrings_of w days = Inr ds \<Longrightarrow> length ds = nat days"
  by (auto simp: dateStrings_of_def dest: collect_length)

text \<open>Whatever the zone and the upstream data, a history that is returned has one record
  per requested day.\<close>

lemma history_length:
  "fetchNutritionHistory w username days includeMeals = Inr h \<Longrightarrow> length h = nat days"
  by (auto simp: history_Inr_iff dateStrings_of_length)

lemma fetchTrends_Inr_key:
  "fetchTrends w username days = Inr nutritionData \<Longrightarrow> \<exists>key. getApiKey w username = Inr key"
  by (auto simp: fetchTrends_def split: sum.splits)

lemma food_entries_update_irrelevant:
  "fetchTrends (w\<lparr>food_entries_by_date := f\<rparr>) username days = fetchTrends w username days"
  "dateStrings_of (w\<lparr>food_entries_by_date := f\<rparr>) days = dateStrings_of w days"
  "getApiKey (w\<lparr>food_entries_by_date := f\<rparr>) username = getApiKey w username"
proof -
  have s: "startDate_of (w\<lparr>food_entries_by_date := f\<rparr>) days = startDate_of w days"
    by (simp add: startDate_of_def)
  show k: "getApiKey (w\<lparr>food_entries_by_date := f\<rparr>) username = getApiKey w username"
    by (simp add: getApiKey_def)
  show "fetchTrends (w\<lparr>food_entries_by_date := f\<rparr>) username days = fetchTrends w username days"
    unfolding fetchTrends_def k s
    by (simp split: sum.splits response.splits option.splits)
  show "dateStrings_of (w\<lparr>food_entries_by_date := f\<rparr>) days = dateStrings_of w days"
    unfolding dateStrings_of_def s by simp
qed

lemma mealsOrEmpty_cases:
  "getApiKey w username = Inr key \<Longrightarrow>
   mealsOrEmpty w username d =
     (case food_entries_by_date w key d of
        Ok entries \<Rightarrow> fold addFoodEntry entries empty_meals
      | Status s \<Rightarrow> empty_meals
      | Rejected \<Rightarrow> empty_meals)"
  by (simp add: mealsOrEmpty_def fetchFoodEntriesForDate_def split: response.splits)

text \<open>
  C5. Let the aggregation without meals succeed. Then, whatever the food-entries
  endpoint answers, the aggregation with meals succeeds too, with the same number of
  records (\<open>days\<close> of them), the same dates and the same totals; and the meals of each
  record are those its own call returned, or the empty breakdown when that call failed.
  A failure for one date therefore empties the breakdown of that date only.
\<close>

theorem C5_meal_fetch_failure_degrades:
  assumes "fetchNutritionHistory w username days False = Inr h0"
  shows "\<exists>h key. fetchNutritionHistory (w\<lparr>food_entries_by_date := f\<rparr>) username days True = Inr h
           \<and> getApiKey w username = Inr key
           \<and> length h = nat days
           \<and> map date h = map date h0
           \<and> map nutrients h = map nutrients h0
           \<and> (\<forall>r \<in> set h. meals r =
                 Some (case f key (date r) of
                         Ok entries \<Rightarrow> fold addFoodEntry entries empty_meals
                       | Status s \<Rightarrow> empty_meals
                       | Rejected \<Rightarrow> empty_meals))"
proof -
  let ?w = "w\<lparr>food_entries_by_date := f\<rparr>"
  from assms obtain nutritionData ds where
    t: "fetchTrends w username days = Inr nutritionData" and
    d: "dateStrings_of w days = Inr ds" and
    h0: "h0 = map (dailyData (nutritionMap_of nutritionData) (mealsMap_of w username False ds) False) ds"
    unfolding history_Inr_iff by blast
  from t obtain key where key: "getApiKey w username = Inr key"
    using fetchTrends_Inr_key by blast
  define h where
    "h = map (dailyData (nutritionMap_of nutritionData) (mealsMap_of ?w username True ds) True) ds"
  have run: "fetchNutritionHistory ?w username days True = Inr h"
    unfolding history_Inr_iff h_def using t d by (simp add: food_entries_update_irrelevant)
  have len: "length h = nat days"
    using d by (simp add: h_def dateStrings_of_length)
  have dates: "map date h = map date h0"
    by (simp add: h_def h0 dailyData_def comp_def)
  have nutr: "map nutrients h = map nutrients h0"
    by (simp add: h_def h0 dailyData_def comp_def)
  have "meals r = Some (case f key (date r) of
                         Ok entries \<Rightarrow> fold addFoodEntry entries empty_meals
                       | Status s \<Rightarrow> empty_meals
                       | Rejected \<Rightarrow> empty_meals)" if "r \<in> set h" for r
  proof -
    from that obtain dateStr where ds: "dateStr \<in> set ds"
      and r: "r = dailyData (nutritionMap_of nutritionData) (mealsMap_of ?w username True ds) True dateStr"
      unfolding h_def by auto
    have "getApiKey ?w username = Inr key"
      using key by (simp add: food_entries_update_irrelevant)
    from mealsOrEmpty_cases [OF this] show ?thesis
      by (simp add: r dailyData_def mealsMap_of_lookup [OF ds])
  qed
  with run key len dates nutr show ?thesis by blast
qed


text \<open>
  C4, as amended. There is no check of \<open>days\<close>: for \<open>days \<le> 0\<close> the aggregation fails
  exactly when the credential lookup, the profile call, the rendering of the date range
  or the totals call fails, and returns the empty sequence otherwise; the route then
  answers 200 with the empty sequence.
\<close>

theorem C4_no_validation_of_days:
  assumes "days \<le> 0"
  shows "fetchNutritionHistory w username days includeMeals =
           (case fetchTrends w username days of Inl e \<Rightarrow> Inl e | Inr nutritionData \<Rightarrow> Inr [])
         \<and> (username \<noteq> [] \<longrightarrow> loader w username days =
               (case fetchTrends w username days of
                  Inl e \<Rightarrow> (500, None)
                | Inr nutritionData \<Rightarrow> (200, Some [])))"
proof -
  from assms have "dateStrings_of w days = Inr []"
    by (simp add: dateStrings_of_def)
  then have "fetchNutritionHistory w username days im =
           (case fetchTrends w username days of Inl e \<Rightarrow> Inl e | Inr nutritionData \<Rightarrow> Inr [])" for im
    by (simp add: fetchNutritionHistory_def Let_def split: sum.splits)
  then show ?thesis
    by (simp add: loader_def split: sum.splits)
qed


section \<open>The example worlds, evaluated\<close>

lemmas date_defs =
  setDate_getDate_plus_def toISODate_def TimeClip_def UTC_def LocalTime_def MakeDate_def
  Day_def TimeWithinDay_def msPerDay_def Let_def

lemma example_key: "getApiKey (example_world tza t) ''alice'' = Inr ''key1''"
  by (simp add: example_world_def getApiKey_def API_KEYS_MAP_def set_entry_def trim_def isWhiteSpace_def)

lemma example_fields:
  "now (example_world tza t) = t"
  "LocalTZA (example_world tza t) = tza"
  "auth_profiles (example_world tza t) ''key1'' = Ok \<lparr>profile_id = Some ''u1''\<rparr>"
  "mini_nutrition_trends (example_world tza t) key userId startDateStr endDateStr =
     Ok [\<lparr>day_date = 19813, day_calories = 1234.56, day_protein = 80.04,
          day_carbs = 200.26, day_fat = 0\<rparr>]"
  "food_entries_by_date (example_world tza t) key d = (if d = 19813 then Status 500 else Ok [rice])"
  by (simp_all add: example_world_def)

lemma example_trends:
  assumes "toISODate (startDate_of (example_world tza t) days) = Inr startDateStr"
  shows "fetchTrends (example_world tza t) ''alice'' days =
           Inr [\<lparr>day_date = 19813, day_calories = 1234.56, day_protein = 80.04,
                 day_carbs = 200.26, day_fat = 0\<rparr>]"
  unfolding fetchTrends_def example_key Let_def assms
  by (simp add: example_fields toISODate_def)

lemma upt_nat_numerals:
  "[0..<nat 1] = [0]" "[0..<nat 2] = [0, 1]" "[0..<nat 3] = [0, 1, 2]"
  by (simp_all add: numeral_2_eq_2 numeral_3_eq_3 upt_rec)

text \<open>Noon UTC of 2024-04-01 (day 19814), the process on UTC.\<close>

lemma example_utc_start:
  "startDate_of (example_world utc 1711972800000) 3 = Some 1711800000000"
  "startDate_of (example_world utc 1711972800000) 1 = Some 1711972800000"
  "startDate_of (example_world utc 1711972800000) 0 = Some 1712059200000"
  by (simp_all add: example_fields utc_def startDate_of_def date_defs)

lemma example_utc_dates:
  "dateStrings_of (example_world utc 1711972800000) 3 = Inr [19812, 19813, 19814]"
  "dateStrings_of (example_world utc 1711972800000) 1 = Inr [19814]"
  unfolding dateStrings_of_def example_utc_start upt_nat_numerals
  by (simp_all add: example_fields utc_def date_defs)

lemma example_utc_trends:
  "fetchTrends (example_world utc 1711972800000) ''alice'' 3 =
           Inr [\<lparr>day_date = 19813, day_calories = 1234.56, day_protein = 80.04,
                 day_carbs = 200.26, day_fat = 0\<rparr>]"
  "fetchTrends (example_world utc 1711972800000) ''alice'' 0 =
           Inr [\<lparr>day_date = 19813, day_calories = 1234.56, day_protein = 80.04,
                 day_carbs = 200.26, day_fat = 0\<rparr>]"
  by (rule example_trends, simp add: example_utc_start toISODate_def)+

lemma example_utc_history:
  "fetchNutritionHistory (example_world utc 1711972800000) ''alice'' 3 False =
  Inr [\<lparr>date = 19812, nutrients = \<lparr>calories = Fin 0, protein = Fin 0, carbs = Fin 0, fat = Fin 0\<rparr>, meals = None\<rparr>,
       \<lparr>date = 19813, nutrients = \<lparr>calories = Fin 1234.6, protein = Fin 80, carbs = Fin 200.3, fat = Fin 0\<rparr>, meals = None\<rparr>,
       \<lparr>date = 19814, nutrients = \<lparr>calories = Fin 0, protein = Fin 0, carbs = Fin 0, fat = Fin 0\<rparr>, meals = None\<rparr>]"
  unfolding history_eval [OF example_utc_trends(1) example_utc_dates(1)]
  by (simp add: nutritionMap_of_def dailyData_def)

theorem C5_meal_fetch_failure_degrades_witness:
  "\<exists>h. fetchNutritionHistory
          ((example_world utc 1711972800000)
             \<lparr>food_entries_by_date := (\<lambda>key d. if d = 19812 then Rejected else Ok [rice])\<rparr>)
          ''alice'' 3 True = Inr h
     \<and> length h = 3
     \<and> map date h = [19812, 19813, 19814]
     \<and> map meals h =
         [Some empty_meals,
          Some (fold addFoodEntry [rice] empty_meals),
          Some (fold addFoodEntry [rice] empty_meals)]"
proof -
  let ?w = "example_world utc 1711972800000"
  let ?f = "\<lambda>(key :: string) (d :: day). if d = 19812 then Rejected else Ok [rice]"
  from C5_meal_fetch_failure_degrades [OF example_utc_history, of ?f] obtain h key where
    run: "fetchNutritionHistory (?w\<lparr>food_entries_by_date := ?f\<rparr>) ''alice'' 3 True = Inr h" and
    key: "getApiKey ?w ''alice'' = Inr key" and
    len: "length h = nat 3" and
    dates: "map date h = [19812, 19813, 19814]" and
    ms: "\<forall>r \<in> set h. meals r =
                 Some (case ?f key (date r) of
                         Ok entries \<Rightarrow> fold addFoodEntry entries empty_meals
                       | Status s \<Rightarrow> empty_meals
                       | Rejected \<Rightarrow> empty_meals)"
    by auto
  have "map meals h = map (\<lambda>d. Some (case ?f key d of
                         Ok entries \<Rightarrow> fold addFoodEntry entries empty_meals
                       | Status s \<Rightarrow> empty_meals
                       | Rejected \<Rightarrow> empty_meals)) (map date h)"
    using ms by (simp add: comp_def)
  then have "map meals h =
         [Some empty_meals,
          Some (fold addFoodEntry [rice] empty_meals),
          Some (fold addFoodEntry [rice] empty_meals)]"
    unfolding dates by simp
  with run len dates show ?thesis
    by (intro exI [of _ h] conjI) simp_all
qed

text \<open>The entry of the specification: serving size 100, quantity 150 and 200 calories give
  300.\<close>

lemma foodItem_rice:
  "foodItem rice =
     \<lparr>item_name = ''rice'', item_brand = None, item_quantity = 150, item_unit = ''g'',
      item_calories = Fin 300, item_protein = Fin 6.3, item_carbs = Fin 66.6, item_fat = Fin 0.6\<rparr>"
  by (simp add: foodItem_def rice_def)


theorem C10_unguarded_division_witness:
  "\<exists>ms. fetchFoodEntriesForDate
           ((example_world utc 1711972800000)
              \<lparr>food_entries_by_date := (\<lambda>key d. Ok [rice\<lparr>entry_serving_size := 0\<rparr>])\<rparr>)
           ''alice'' 19814 = Inr ms
     \<and> lunch ms = [foodItem (rice\<lparr>entry_serving_size := 0\<rparr>)]
     \<and> item_calories (foodItem (rice\<lparr>entry_serving_size := 0\<rparr>)) = PInf
     \<and> \<not> isFinite (item_calories (foodItem (rice\<lparr>entry_serving_size := 0\<rparr>)))
     \<and> \<not> isFinite (item_fat (foodItem (rice\<lparr>entry_serving_size := 0\<rparr>)))"
proof -
  let ?e = "rice\<lparr>entry_serving_size := 0\<rparr>"
  let ?w = "(example_world utc 1711972800000)\<lparr>food_entries_by_date := (\<lambda>key d. Ok [?e])\<rparr>"
  have k: "getApiKey ?w ''alice'' = Inr ''key1''"
    by (simp add: food_entries_update_irrelevant example_key)
  have e: "food_entries_by_date ?w ''key1'' 19814 = Ok [?e]"
    by simp
  from C10_unguarded_division [OF k e, of ?e] obtain ms where
    run: "fetchFoodEntriesForDate ?w ''alice'' 19814 = Inr ms" and
    m: "foodItem ?e \<in> set (bucket (entry_meal_type ?e) ms)" and
    n: "\<not> isFinite (item_calories (foodItem ?e))" "\<not> isFinite (item_fat (foodItem ?e))"
    by auto
  have "lunch ms = [foodItem ?e]"
    using run unfolding fetchFoodEntriesForDate_def k
    by (auto simp: addFoodEntry_def empty_meals_def rice_def)
  moreover have "item_calories (foodItem ?e) = PInf"
    by (simp add: foodItem_def rice_def)
  ultimately show ?thesis
    using run n by (intro exI [of _ ms] conjI) simp_all
qed



theorem C4_no_validation_of_days_witness:
  "fetchNutritionHistory (example_world utc 1711972800000) ''alice'' 0 True = Inr []
   \<and> loader (example_world utc 1711972800000) ''alice'' 0 = (200, Some [])"
  using C4_no_validation_of_days [of 0 "example_world utc 1711972800000" "''alice''" True]
  by (simp add: example_utc_trends)

text \<open>For \<open>days = 0\<close> the aggregation returns the empty sequence and the route answers 200.\<close>

theorem C4_no_validation_of_days_counterexample:
  "fetchNutritionHistory (example_world utc 1711972800000) ''alice'' 0 False = Inr []
   \<and> loader (example_world utc 1711972800000) ''alice'' 0 = (200, Some [])"
proof -
  have d: "dateStrings_of (example_world utc 1711972800000) 0 = Inr []"
    by (simp add: dateStrings_of_def)
  have "fetchNutritionHistory (example_world utc 1711972800000) ''alice'' 0 False = Inr []"
    unfolding history_eval [OF example_utc_trends(2) d] by simp
  then show ?thesis
    by (simp add: loader_def)
qed


section \<open>Calendar days and time zones\<close>

lemma fetchTrends_fixed_zone:
  assumes "LocalTZA w = (\<lambda>t isUTC. offset)" "validTime (now w - (days - 1) * msPerDay)"
    and "getApiKey w username = Inr key" "auth_profiles w key = Ok profileData"
    and "profile_id profileData = Some userId" "userId \<noteq> []"
  shows "fetchTrends w username days =
           (case mini_nutrition_trends w key userId (utcToday w - (days - 1)) (utcToday w) of
              Ok nutritionData \<Rightarrow> Inr nutritionData
            | Status s \<Rightarrow> Inl FailedToFetchNutritionHistory
            | Rejected \<Rightarrow> Inl FetchRejected)"
proof -
  have "Day (now w - (days - 1) * msPerDay) = Day (now w) - (days - 1)"
    by (rule Day_sub)
  then show ?thesis
    unfolding fetchTrends_def startDate_fixed [OF assms(1,2)] assms(3) Let_def
    by (simp add: assms(4-6) toISODate_def utcToday_def split: response.splits)
qed

text \<open>
  C9, as amended. Every calendar-day string is the day in UTC of its time value, not the
  local day: the end of the window and the default date of the goals are today in UTC;
  and in a zone with a fixed offset, with the dates in the range of \<^verbatim>\<open>Date\<close>, the start of
  the window is today in UTC minus \<open>days - 1\<close>, the dates of the window are the days from
  there up to today in UTC, and the totals are requested for that range.
\<close>

theorem C9_calendar_days_are_utc_days:
  "toISODate (Some (now w)) = Inr (utcToday w)
   \<and> fetchGoals w username None = fetchGoals w username (Some (utcToday w))
   \<and> (LocalTZA w = (\<lambda>t isUTC. offset) \<and> validTime (now w - (days - 1) * msPerDay)
        \<longrightarrow> toISODate (startDate_of w days) = Inr (utcToday w - (days - 1)))
   \<and> (LocalTZA w = (\<lambda>t isUTC. offset) \<and> validTime (now w - (days - 1) * msPerDay)
        \<and> validTime (now w)
        \<longrightarrow> dateStrings_of w days = Inr (map (\<lambda>i. utcToday w - (days - 1) + int i) [0..<nat days]))
   \<and> (LocalTZA w = (\<lambda>t isUTC. offset) \<and> validTime (now w - (days - 1) * msPerDay)
        \<and> getApiKey w username = Inr key \<and> auth_profiles w key = Ok profileData
        \<and> profile_id profileData = Some userId \<and> userId \<noteq> []
        \<longrightarrow> fetchTrends w username days =
             (case mini_nutrition_trends w key userId (utcToday w - (days - 1)) (utcToday w) of
                Ok nutritionData \<Rightarrow> Inr nutritionData
              | Status s \<Rightarrow> Inl FailedToFetchNutritionHistory
              | Rejected \<Rightarrow> Inl FetchRejected))"
proof -
  have a: "toISODate (Some (now w)) = Inr (utcToday w)"
    by (simp add: toISODate_def utcToday_def)
  have b: "fetchGoals w username None = fetchGoals w username (Some (utcToday w))"
    by (simp add: fetchGoals_def a split: sum.splits)
  have c: "toISODate (startDate_of w days) = Inr (utcToday w - (days - 1))"
    if "LocalTZA w = (\<lambda>t isUTC. offset)" "validTime (now w - (days - 1) * msPerDay)"
    by (simp add: startDate_fixed [OF that] toISODate_def utcToday_def Day_sub)
  show ?thesis
    using a b c dateStrings_fixed [of w offset days] fetchTrends_fixed_zone [of w offset days username key]
    unfolding utcToday_def by blast
qed

theorem C9_calendar_days_are_utc_days_witness:
  "utcToday (example_world utc_plus_7 1704139200000) = 19723
   \<and> toISODate (Some (now (example_world utc_plus_7 1704139200000))) = Inr 19723
   \<and> toISODate (startDate_of (example_world utc_plus_7 1704139200000) 3) = Inr 19721
   \<and> dateStrings_of (example_world utc_plus_7 1704139200000) 3 = Inr [19721, 19722, 19723]
   \<and> fetchTrends (example_world utc_plus_7 1704139200000) ''alice'' 3 =
       Inr [\<lparr>day_date = 19813, day_calories = 1234.56, day_protein = 80.04,
             day_carbs = 200.26, day_fat = 0\<rparr>]"
proof -
  let ?w = "example_world utc_plus_7 1704139200000"
  have u: "utcToday ?w = 19723"
    by (simp add: utcToday_def example_fields Day_def msPerDay_def)
  have tz: "LocalTZA ?w = (\<lambda>t isUTC. 25200000)"
    by (simp add: example_fields utc_plus_7_def fun_eq_iff)
  have v: "validTime (now ?w - (3 - 1) * msPerDay)" "validTime (now ?w)"
    by (simp_all add: validTime_def example_fields msPerDay_def)
  have p: "auth_profiles ?w ''key1'' = Ok \<lparr>profile_id = Some ''u1''\<rparr>"
    "profile_id \<lparr>profile_id = Some ''u1''\<rparr> = Some ''u1''" "''u1'' \<noteq> []"
    by (simp_all add: example_fields)
  show ?thesis
    using C9_calendar_days_are_utc_days [of ?w "''alice''" 25200000 3 "''key1''"
        "\<lparr>profile_id = Some ''u1''\<rparr>" "''u1''"] tz v p example_key [of utc_plus_7 1704139200000]
    unfolding u by (simp add: example_fields numeral_3_eq_3 upt_rec)
qed

text \<open>
  20:00 UTC of 2024-01-01 (day 19723) is 03:00 of 2024-01-02 (day 19724) seven hours
  ahead of UTC: the window ends on day 19723, and the goals are asked for day 19723,
  for which there are none, not for the local day.
\<close>

theorem C9_calendar_days_are_utc_days_counterexample:
  "localToday (example_world utc_plus_7 1704139200000) = 19724
   \<and> toISODate (Some (now (example_world utc_plus_7 1704139200000))) = Inr 19723
   \<and> fetchGoals (example_world utc_plus_7 1704139200000) ''alice'' None = Inl FailedToFetchGoals
   \<and> fetchGoals (example_world utc_plus_7 1704139200000) ''alice'' (Some 19724) =
       Inr \<lparr>goals_calories = 2000, goals_protein = 150, goals_carbs = 200, goals_fat = 70\<rparr>"
proof -
  let ?w = "example_world utc_plus_7 1704139200000"
  have l: "localToday ?w = 19724"
    by (simp add: localToday_def example_fields utc_plus_7_def LocalTime_def Day_def msPerDay_def)
  have u: "toISODate (Some (now ?w)) = Inr 19723"
    by (simp add: example_fields toISODate_def Day_def msPerDay_def)
  have g: "goals_by_date ?w ''key1'' 19723 = Status 404"
    "goals_by_date ?w ''key1'' 19724 =
       Ok \<lparr>goals_calories = 2000, goals_protein = 150, goals_carbs = 200, goals_fat = 70\<rparr>"
    by (simp_all add: example_world_def)
  have "fetchGoals ?w ''alice'' None = Inl FailedToFetchGoals"
    unfolding fetchGoals_def example_key u by (simp add: g)
  moreover have "fetchGoals ?w ''alice'' (Some 19724) =
       Inr \<lparr>goals_calories = 2000, goals_protein = 150, goals_carbs = 200, goals_fat = 70\<rparr>"
    unfolding fetchGoals_def example_key by (simp add: g)
  ultimately show ?thesis
    using l u by simp
qed

text \<open>
  In a zone with a fixed offset the dates of a returned history are the consecutive days
  ending today in UTC.
\<close>

lemma history_dates_fixed_zone:
  assumes "LocalTZA w = (\<lambda>t isUTC. offset)"
    and "validTime (now w - (days - 1) * msPerDay)" "validTime (now w)"
    and "fetchNutritionHistory w username days includeMeals = Inr h"
  shows "map date h = map (\<lambda>i. utcToday w - (days - 1) + int i) [0..<nat days]"
proof -
  from assms(4) obtain nutritionData ds where
    d: "dateStrings_of w days = Inr ds" and
    h: "h = map (dailyData (nutritionMap_of nutritionData) (mealsMap_of w username includeMeals ds) includeMeals) ds"
    unfolding history_Inr_iff by blast
  have "map date h = ds"
    by (simp add: h dailyData_def comp_def)
  with d dateStrings_fixed [OF assms(1-3)] show ?thesis
    by (simp add: utcToday_def)
qed

lemma history_dates_ascending_fixed_zone:
  assumes "LocalTZA w = (\<lambda>t isUTC. offset)"
    and "validTime (now w - (days - 1) * msPerDay)" "validTime (now w)"
    and "fetchNutritionHistory w username days includeMeals = Inr h"
  shows "sorted_wrt (<) (map date h)" and "distinct (map date h)"
    and "0 < days \<Longrightarrow> last (map date h) = utcToday w"
proof -
  have d: "map date h = map (\<lambda>i. utcToday w - (days - 1) + int i) [0..<nat days]"
    by (rule history_dates_fixed_zone [OF assms])
  show "sorted_wrt (<) (map date h)"
    unfolding d by (simp add: sorted_wrt_map sorted_wrt_iff_nth_less)
  show "distinct (map date h)"
    unfolding d by (simp add: distinct_map inj_on_def)
  show "last (map date h) = utcToday w" if "0 < days"
  proof -
    define n where "n = nat (days - 1)"
    from that have n: "nat days = Suc n" "days = int n + 1"
      by (simp_all add: n_def)
    show ?thesis
      unfolding d n(1) by (simp add: n(2))
  qed
qed

lemma history_is_gap_filled_fixed_zone:
  assumes "LocalTZA w = (\<lambda>t isUTC. offset)"
    and "validTime (now w - (days - 1) * msPerDay)" "validTime (now w)"
    and "fetchNutritionHistory w username days includeMeals = Inr h"
  shows "\<forall>i<length h. date (h ! i) = utcToday w - int (length h - 1 - i)"
proof (intro allI impI)
  fix i assume i: "i < length h"
  have len: "length h = nat days"
    using assms(4) by (rule history_length)
  have "date (h ! i) = map date h ! i"
    using i by simp
  also have "\<dots> = utcToday w - (days - 1) + int i"
    unfolding history_dates_fixed_zone [OF assms] using i len by simp
  also have "\<dots> = utcToday w - int (length h - 1 - i)"
    using i len by (simp add: of_nat_diff)
  finally show "date (h ! i) = utcToday w - int (length h - 1 - i)" .
qed

text \<open>
  The walk over the days is made in local time and rendered in UTC, so a change of the
  zone's offset inside the window can repeat a day and skip another. 23:30 UTC of
  2024-04-01 is 01:30 of 2024-04-02 in Berlin. Two local days earlier, at 01:30 of
  2024-03-31, winter time is still in force: the start is 00:30 UTC of 2024-03-31
  (day 19813). One local day later, 01:30 of 2024-04-01 is 23:30 UTC of 2024-03-31,
  day 19813 again.
\<close>

lemma example_berlin_start:
  "startDate_of (example_world berlin_2024 1712014200000) 3 = Some 1711845000000"
  by (simp add: example_fields berlin_2024_def startDate_of_def date_defs)

lemma example_berlin_dates:
  "dateStrings_of (example_world berlin_2024 1712014200000) 3 = Inr [19813, 19813, 19814]"
  unfolding dateStrings_of_def example_berlin_start upt_nat_numerals
  by (simp add: example_fields berlin_2024_def date_defs)

text \<open>
  C1, at this input: the history of three days has the dates 2024-03-31, 2024-03-31 and
  2024-04-01. It has three records, and the record of a date without upstream totals is
  all 0, but the dates are neither distinct nor consecutive.
\<close>

theorem C1_dst_zone_repeats_a_date:
  "fetchNutritionHistory (example_world berlin_2024 1712014200000) ''alice'' 3 False =
     Inr [\<lparr>date = 19813, nutrients = \<lparr>calories = Fin 1234.6, protein = Fin 80, carbs = Fin 200.3, fat = Fin 0\<rparr>, meals = None\<rparr>,
          \<lparr>date = 19813, nutrients = \<lparr>calories = Fin 1234.6, protein = Fin 80, carbs = Fin 200.3, fat = Fin 0\<rparr>, meals = None\<rparr>,
          \<lparr>date = 19814, nutrients = \<lparr>calories = Fin 0, protein = Fin 0, carbs = Fin 0, fat = Fin 0\<rparr>, meals = None\<rparr>]"
proof -
  have t: "fetchTrends (example_world berlin_2024 1712014200000) ''alice'' 3 =
           Inr [\<lparr>day_date = 19813, day_calories = 1234.56, day_protein = 80.04,
                 day_carbs = 200.26, day_fat = 0\<rparr>]"
    by (rule example_trends) (simp add: example_berlin_start toISODate_def)
  show ?thesis
    unfolding history_eval [OF t example_berlin_dates]
    by (simp add: nutritionMap_of_def dailyData_def)
qed


section \<open>Properties of the streak\<close>

text \<open>
  In every zone \<open>totalDays\<close> is the number of records with calories above 0, and the
  streak is at most the length of the history plus one: the safety check reads the
  streak after the increment and stops it only above the length.
\<close>

lemma streakLoop_bound:
  "streakLoop tza m n d s = Inr k \<Longrightarrow> s \<le> n \<Longrightarrow> k \<le> Suc n"
proof (induction tza m n d s rule: streakLoop.induct)
  case (1 tza nutritionMap n currentDate streak)
  from "1.prems" show ?case
    by (subst (asm) streakLoop.simps)
      (auto split: sum.splits option.splits if_splits intro: "1.IH")
qed

lemma streak_and_total_any_zone:
  assumes "calculateStreakAndTotalDays w h = Inr r"
  shows "totalDays r = length (filter (\<lambda>dy. jgt (calories (nutrients dy)) (Fin 0)) h)"
    and "currentStreak r \<le> Suc (length h)"
  using assms streakLoop_bound [of "LocalTZA w" _ "length h" "Some (now w)" 0]
  by (auto simp: calculateStreakAndTotalDays_def Let_def split: sum.splits)

lemma streakLoop_unfold:
  "streakLoop tza m n (Some tv) s =
     (if hit m (Day tv)
      then (if n < Suc s then Inr (Suc s)
            else streakLoop tza m n (setDate_getDate_plus tza (Some tv) (- 1)) (Suc s))
      else Inr s)"
  by (subst streakLoop.simps) (simp add: toISODate_def hit_def split: option.splits)










lemma logged_fields: "date (logged d c) = d" "calories (nutrients (logged d c)) = Fin c"
  by (simp_all add: logged_def)



text \<open>
  In Berlin at the instant above, the walk back from today renders 2024-04-01,
  2024-03-31 and 2024-03-31 again: a history of two logged days has a streak of 3, and
  only the safety check, which lets the streak reach the length plus one, ends the walk.
\<close>

lemma streak_in_dst_zone_exceeds_length:
  "calculateStreakAndTotalDays (example_world berlin_2024 1712014200000)
     [logged 19813 500, logged 19814 600] = Inr \<lparr>currentStreak = 3, totalDays = 2\<rparr>"
  by (simp add: calculateStreakAndTotalDays_def streakLoop_unfold example_fields berlin_2024_def hit_def
      logged_fields jgt_def date_defs)


end
